theory Spec2Isabelle
  imports Main
begin

section \<open>The website cloner page (frontend/src/app/page.tsx)\<close>

text \<open>
  The component \<open>WebsiteCloner\<close> keeps its session in React state hooks and drives two
  dependent remote calls from the asynchronous handler \<open>executeCloning\<close>. The model below
  keeps the hooks as the fields of one record, adds to it the part of the browser the
  handlers act on (the requests sent, the object URLs of the page, the pending timer
  callbacks, the suspended handler), and cuts \<open>executeCloning\<close> at its suspension points:
  the handler runs up to the first \<open>fetch\<close>, resumes when the capture call settles, and
  resumes again when the reconstruct call settles. JavaScript runs each of these pieces
  without interleaving, so each is one function from world to world.
\<close>

subsection \<open>Strings\<close>

text \<open>
  A JavaScript string is read as the list of the bytes of its UTF-8 encoding.
  \<open>startsWith\<close> compares the leading bytes.
\<close>

definition startsWith :: "string \<Rightarrow> string \<Rightarrow> bool" where
  "startsWith s p = (take (length p) s = p)"

text \<open>
  \<open>String.prototype.trim\<close> strips the white space and the line terminators of ECMAScript
  at both ends. \<open>whiteSpace\<close> lists their encodings: tab, line feed, vertical tab, form
  feed, carriage return, space; U+00A0; U+1680; U+2000 to U+200A; U+2028 and U+2029;
  U+202F; U+205F; U+3000; U+FEFF. No encoding in the list starts another one, and in a
  well-formed string the last bytes are one of them only when the last character is that
  white space, so stripping encodings at both ends strips the characters.
\<close>

definition whiteSpace :: "string list" where
  "whiteSpace =
     [[CHR 0x09], [CHR 0x0A], [CHR 0x0B], [CHR 0x0C], [CHR 0x0D], [CHR 0x20],
      [CHR 0xC2, CHR 0xA0],
      [CHR 0xE1, CHR 0x9A, CHR 0x80],
      [CHR 0xE2, CHR 0x80, CHR 0x80], [CHR 0xE2, CHR 0x80, CHR 0x81],
      [CHR 0xE2, CHR 0x80, CHR 0x82], [CHR 0xE2, CHR 0x80, CHR 0x83],
      [CHR 0xE2, CHR 0x80, CHR 0x84], [CHR 0xE2, CHR 0x80, CHR 0x85],
      [CHR 0xE2, CHR 0x80, CHR 0x86], [CHR 0xE2, CHR 0x80, CHR 0x87],
      [CHR 0xE2, CHR 0x80, CHR 0x88], [CHR 0xE2, CHR 0x80, CHR 0x89],
      [CHR 0xE2, CHR 0x80, CHR 0x8A],
      [CHR 0xE2, CHR 0x80, CHR 0xA8], [CHR 0xE2, CHR 0x80, CHR 0xA9],
      [CHR 0xE2, CHR 0x80, CHR 0xAF],
      [CHR 0xE2, CHR 0x81, CHR 0x9F],
      [CHR 0xE3, CHR 0x80, CHR 0x80],
      [CHR 0xEF, CHR 0xBB, CHR 0xBF]]"

text \<open>
  \<open>stripLeading ps s\<close> removes from the front of \<open>s\<close> every leading occurrence of one of
  the byte sequences \<open>ps\<close>, until \<open>s\<close> starts with none of them.
\<close>

fun stripLeading :: "string list \<Rightarrow> string \<Rightarrow> string" where
  "stripLeading ps [] = []"
| "stripLeading ps (c # cs) =
     (case find (startsWith (c # cs)) ps of
        None \<Rightarrow> c # cs
      | Some p \<Rightarrow> stripLeading ps (drop (length p - 1) cs))"

definition trim :: "string \<Rightarrow> string" where
  "trim s = rev (stripLeading (map rev whiteSpace) (rev (stripLeading whiteSpace s)))"

subsection \<open>The JSON interfaces\<close>

record Image =
  img_src :: string
  img_alt :: string
  img_width :: int
  img_height :: int

record Structure =
  h1 :: string
  h2 :: string
  navigation :: bool
  footer :: bool
  sidebar :: bool

record Stats =
  images_found :: int
  stats_has_screenshot :: bool
  css_rules :: int
  dom_elements :: int

record ScrapedData =
  sd_url :: string
  sd_title :: string
  sd_screenshot :: "string option"
  sd_structure :: Structure
  sd_images :: "Image list"
  sd_stats :: Stats
  sd_timestamp :: string
  sd_status :: string

record ProcessingInfo =
  context_length :: int
  info_has_screenshot :: bool
  images_processed :: int

record CloneResult =
  cr_status :: string
  model_used :: string
  html_content :: string
  cr_timestamp :: string
  processing_info :: ProcessingInfo

text \<open>The body of a failure response; \<open>detail\<close> is \<open>None\<close> when the field is missing.\<close>

record ErrorData =
  detail :: "string option"

subsection \<open>The remote calls\<close>

text \<open>
  What \<open>response.json()\<close> gives: the parsed body, or a rejection with the message of the
  error thrown by the parser.
\<close>

datatype 'a body = BadJson string | Json 'a

text \<open>
  How a \<open>fetch\<close> settles: the promise rejects (a transport failure, with the message of
  the error), or it resolves to a response whose \<open>ok\<close> is false, or to one whose \<open>ok\<close> is
  true.
\<close>

datatype 'a fetch_result =
    Rejected string
  | RespNotOk "ErrorData body"
  | RespOk "'a body"

text \<open>The two request bodies, as \<open>JSON.stringify\<close> receives them.\<close>

datatype request =
    ScrapeRequest string bool int int int
  | CloneRequest string bool bool ScrapedData

fun isCloneRequest :: "request \<Rightarrow> bool" where
  "isCloneRequest (CloneRequest m r i d) = True"
| "isCloneRequest (ScrapeRequest u c vw vh wt) = False"

text \<open>Where the suspended \<open>executeCloning\<close> waits.\<close>

datatype await = AwaitScrape | AwaitClone

subsection \<open>The state\<close>

text \<open>
  The first eleven fields are the \<open>useState\<close> hooks of the component. The number inputs
  hold JavaScript numbers; the model keeps the integers among them. The remaining fields
  are the environment: \<open>pending\<close> is the suspended handler, \<open>requests\<close> the calls issued so
  far (oldest first), \<open>liveBlobs\<close> the object URLs that are alive with the text each one
  wraps, \<open>revoked\<close> the arguments of the \<open>URL.revokeObjectURL\<close> calls so far, \<open>blobCounter\<close>
  the number of object URLs created so far, and \<open>timers\<close> the number of
  \<open>setTimeout\<close> callbacks that have not run yet.
\<close>

record world =
  url :: string
  isLoading :: bool
  scrapedData :: "ScrapedData option"
  cloneResult :: "CloneResult option"
  error :: string
  previewUrl :: string
  currentStep :: string
  showAdvanced :: bool
  viewportWidth :: int
  viewportHeight :: int
  waitTime :: int
  pending :: "await option"
  requests :: "request list"
  liveBlobs :: "(string \<times> string) list"
  revoked :: "string list"
  blobCounter :: nat
  timers :: nat

definition initial :: world where
  "initial = \<lparr> url = [], isLoading = False, scrapedData = None, cloneResult = None,
     error = [], previewUrl = [], currentStep = [], showAdvanced = False,
     viewportWidth = 1280, viewportHeight = 720, waitTime = 8000,
     pending = None, requests = [], liveBlobs = [], revoked = [],
     blobCounter = 0, timers = 0 \<rparr>"

subsection \<open>Object URLs\<close>

text \<open>
  \<open>URL.createObjectURL\<close> returns a URL that no earlier call returned; the model writes it
  as \<open>blob:\<close> followed by the serial number of the call in unary.
  \<open>URL.revokeObjectURL\<close> removes the URL from the store of the page and does nothing
  else; on a URL that is not in the store it changes nothing and does not throw.
\<close>

definition blobUrl :: "nat \<Rightarrow> string" where
  "blobUrl n = ''blob:'' @ replicate n (CHR ''i'')"

definition createObjectURL :: "string \<Rightarrow> world \<Rightarrow> string \<times> world" where
  "createObjectURL content w =
     (blobUrl (blobCounter w),
      w\<lparr>liveBlobs := liveBlobs w @ [(blobUrl (blobCounter w), content)],
        blobCounter := Suc (blobCounter w)\<rparr>)"

definition revokeObjectURL :: "string \<Rightarrow> world \<Rightarrow> world" where
  "revokeObjectURL u w =
     w\<lparr>liveBlobs := filter (\<lambda>kv. fst kv \<noteq> u) (liveBlobs w), revoked := revoked w @ [u]\<rparr>"

subsection \<open>Validation and normalisation\<close>

text \<open>
  \<open>new URL(inputUrl)\<close> is the parser of the platform. It is a parameter of the model:
  \<open>parse inputUrl\<close> is \<open>None\<close> when the constructor throws and the \<open>protocol\<close> of the parsed
  URL otherwise.
\<close>

definition validateUrl :: "(string \<Rightarrow> string option) \<Rightarrow> string \<Rightarrow> bool" where
  "validateUrl parse inputUrl =
     (case parse inputUrl of
        None \<Rightarrow> False
      | Some protocol \<Rightarrow> protocol = ''http:'' \<or> protocol = ''https:'')"

definition addHttpsIfNeeded :: "string \<Rightarrow> string" where
  "addHttpsIfNeeded inputUrl =
     (if \<not> startsWith inputUrl ''http://'' \<and> \<not> startsWith inputUrl ''https://''
      then ''https://'' @ inputUrl
      else inputUrl)"

subsection \<open>The progress texts\<close>

text \<open>The three texts start with a pictograph, written here as its UTF-8 bytes.\<close>

definition stepScraping :: string where
  "stepScraping = [CHR 0xF0, CHR 0x9F, CHR 0x94, CHR 0x8D]
     @ '' Analyzing website structure and capturing screenshots...''"

definition stepCloning :: string where
  "stepCloning = [CHR 0xF0, CHR 0x9F, CHR 0xA4, CHR 0x96]
     @ '' AI analyzing design and generating HTML clone...''"

definition stepCompleted :: string where
  "stepCompleted = [CHR 0xE2, CHR 0x9C, CHR 0x85]
     @ '' Website cloning completed successfully!''"

subsection \<open>executeCloning\<close>

text \<open>
  The handler up to its first suspension: the two validation exits, then the clearing of
  the previous results and the capture call.
\<close>

definition executeCloning :: "(string \<Rightarrow> string option) \<Rightarrow> world \<Rightarrow> world" where
  "executeCloning parse w =
     (if trim (url w) = [] then w\<lparr>error := ''Please enter a website URL''\<rparr>
      else
        let processedUrl = addHttpsIfNeeded (trim (url w)) in
        if \<not> validateUrl parse processedUrl
        then w\<lparr>error := ''Please enter a valid URL (e.g., https://example.com)''\<rparr>
        else w\<lparr>isLoading := True, error := [], scrapedData := None, cloneResult := None,
               previewUrl := [], currentStep := stepScraping,
               requests := requests w @
                 [ScrapeRequest processedUrl True (viewportWidth w) (viewportHeight w) (waitTime w)],
               pending := Some AwaitScrape\<rparr>)"

text \<open>The \<open>catch\<close> block followed by the \<open>finally\<close> block.\<close>

definition catchFinally :: "string \<Rightarrow> world \<Rightarrow> world" where
  "catchFinally message w =
     w\<lparr>error := ''Failed to clone website: '' @ message, currentStep := [],
       isLoading := False, pending := None\<rparr>"

text \<open>\<open>errorData.detail || fallback\<close>: a missing and an empty detail are both falsy.\<close>

definition detailOr :: "string option \<Rightarrow> string \<Rightarrow> string" where
  "detailOr d fallback =
     (case d of None \<Rightarrow> fallback | Some t \<Rightarrow> if t = [] then fallback else t)"

text \<open>
  One remote stage inside the \<open>try\<close> block: \<open>await fetch\<close>, the throw on a response that
  is not ok, \<open>await response.json()\<close>. \<open>Inl\<close> is the message of the error thrown.
\<close>

fun awaitJson :: "string \<Rightarrow> 'a fetch_result \<Rightarrow> string + 'a" where
  "awaitJson fallback (Rejected message) = Inl message"
| "awaitJson fallback (RespNotOk (BadJson message)) = Inl message"
| "awaitJson fallback (RespNotOk (Json errorData)) = Inl (detailOr (detail errorData) fallback)"
| "awaitJson fallback (RespOk (BadJson message)) = Inl message"
| "awaitJson fallback (RespOk (Json v)) = Inr v"

text \<open>The handler from the moment the capture call settles to the reconstruct call.\<close>

definition scrapeSettled :: "ScrapedData fetch_result \<Rightarrow> world \<Rightarrow> world" where
  "scrapeSettled r w =
     (case awaitJson ''Website scraping failed'' r of
        Inl message \<Rightarrow> catchFinally message w
      | Inr scraped \<Rightarrow>
          w\<lparr>scrapedData := Some scraped, currentStep := stepCloning,
            requests := requests w @ [CloneRequest ''gpt-4o'' True True scraped],
            pending := Some AwaitClone\<rparr>)"

text \<open>The handler from the moment the reconstruct call settles to its end.\<close>

definition storePreview :: "CloneResult \<Rightarrow> world \<Rightarrow> world" where
  "storePreview cloneData w =
     (if html_content cloneData \<noteq> []
      then (case createObjectURL (html_content cloneData) w of
              (u, w') \<Rightarrow> w'\<lparr>previewUrl := u\<rparr>)
      else w)"

definition cloneSettled :: "CloneResult fetch_result \<Rightarrow> world \<Rightarrow> world" where
  "cloneSettled r w =
     (case awaitJson ''AI cloning failed'' r of
        Inl message \<Rightarrow> catchFinally message w
      | Inr cloneData \<Rightarrow>
          (let w' = storePreview cloneData (w\<lparr>cloneResult := Some cloneData\<rparr>)
           in w'\<lparr>currentStep := stepCompleted, timers := Suc (timers w'),
                 isLoading := False, pending := None\<rparr>))"

subsection \<open>The other handlers\<close>

definition resetForm :: "world \<Rightarrow> world" where
  "resetForm w =
     (let w' = w\<lparr>url := [], scrapedData := None, cloneResult := None, error := [],
                 previewUrl := [], currentStep := []\<rparr>
      in if previewUrl w \<noteq> [] then revokeObjectURL (previewUrl w) w' else w')"

definition downloadHtml :: "world \<Rightarrow> world" where
  "downloadHtml w =
     (case cloneResult w of
        None \<Rightarrow> w
      | Some c \<Rightarrow>
          if html_content c = [] then w
          else (case createObjectURL (html_content c) w of (u, w') \<Rightarrow> revokeObjectURL u w'))"

subsection \<open>Events\<close>

text \<open>
  What can happen to the page. \<open>enabled\<close> is what the markup and the suspended handler
  allow: the address input is disabled while \<open>isLoading\<close>, and so is its Enter key; the
  clone button is disabled while \<open>isLoading\<close> or when the trimmed address is empty; the
  reset button is rendered when \<open>scrapedData || cloneResult\<close>; the number inputs when
  \<open>showAdvanced\<close>; the download button when \<open>scrapedData && cloneResult\<close>; a call settles
  when the handler waits for it; a timer callback runs when one is pending.
\<close>

datatype event =
    TypeUrl string
  | PressEnter
  | ClickClone
  | ClickReset
  | ToggleAdvanced
  | EditViewportWidth int
  | EditViewportHeight int
  | EditWaitTime int
  | ClickDownload
  | ScrapeSettled "ScrapedData fetch_result"
  | CloneSettled "CloneResult fetch_result"
  | TimerFired

fun enabled :: "world \<Rightarrow> event \<Rightarrow> bool" where
  "enabled w (TypeUrl s) = (\<not> isLoading w)"
| "enabled w PressEnter = (\<not> isLoading w)"
| "enabled w ClickClone = (\<not> (isLoading w \<or> trim (url w) = []))"
| "enabled w ClickReset = (scrapedData w \<noteq> None \<or> cloneResult w \<noteq> None)"
| "enabled w ToggleAdvanced = True"
| "enabled w (EditViewportWidth n) = showAdvanced w"
| "enabled w (EditViewportHeight n) = showAdvanced w"
| "enabled w (EditWaitTime n) = showAdvanced w"
| "enabled w ClickDownload = (scrapedData w \<noteq> None \<and> cloneResult w \<noteq> None)"
| "enabled w (ScrapeSettled r) = (pending w = Some AwaitScrape)"
| "enabled w (CloneSettled r) = (pending w = Some AwaitClone)"
| "enabled w TimerFired = (0 < timers w)"

fun handle :: "(string \<Rightarrow> string option) \<Rightarrow> world \<Rightarrow> event \<Rightarrow> world" where
  "handle parse w (TypeUrl s) = w\<lparr>url := s\<rparr>"
| "handle parse w PressEnter = executeCloning parse w"
| "handle parse w ClickClone = executeCloning parse w"
| "handle parse w ClickReset = resetForm w"
| "handle parse w ToggleAdvanced = w\<lparr>showAdvanced := \<not> showAdvanced w\<rparr>"
| "handle parse w (EditViewportWidth n) = w\<lparr>viewportWidth := n\<rparr>"
| "handle parse w (EditViewportHeight n) = w\<lparr>viewportHeight := n\<rparr>"
| "handle parse w (EditWaitTime n) = w\<lparr>waitTime := n\<rparr>"
| "handle parse w ClickDownload = downloadHtml w"
| "handle parse w (ScrapeSettled r) = scrapeSettled r w"
| "handle parse w (CloneSettled r) = cloneSettled r w"
| "handle parse w TimerFired = w\<lparr>currentStep := [], timers := timers w - 1\<rparr>"

definition step :: "(string \<Rightarrow> string option) \<Rightarrow> world \<Rightarrow> event \<Rightarrow> world" where
  "step parse w e = (if enabled w e then handle parse w e else w)"

fun run :: "(string \<Rightarrow> string option) \<Rightarrow> world \<Rightarrow> event list \<Rightarrow> world" where
  "run parse w [] = w"
| "run parse w (e # es) = run parse (step parse w e) es"

text \<open>The requests a step issues: what it appends to the log.\<close>

definition issued :: "(string \<Rightarrow> string option) \<Rightarrow> world \<Rightarrow> event \<Rightarrow> request list" where
  "issued parse w e = drop (length (requests w)) (requests (step parse w e))"

subsection \<open>Notions the properties are stated with\<close>

text \<open>
  A stage fails when its call settles in any other way than an ok response whose body
  parses: the fetch rejects, the response is not ok, or the body of an ok response does
  not parse.
\<close>

fun failed :: "'a fetch_result \<Rightarrow> bool" where
  "failed (Rejected message) = True"
| "failed (RespNotOk b) = True"
| "failed (RespOk (BadJson message)) = True"
| "failed (RespOk (Json v)) = False"

text \<open>The two validation exits of \<open>executeCloning\<close>, as a condition on the address typed.\<close>

definition failsValidation :: "(string \<Rightarrow> string option) \<Rightarrow> string \<Rightarrow> bool" where
  "failsValidation parse raw =
     (trim raw = [] \<or> \<not> validateUrl parse (addHttpsIfNeeded (trim raw)))"

text \<open>
  What holds of every world the page can reach: while the handler is suspended the page
  is loading and has no preview URL; while it waits for the capture call there is neither
  captured data nor a clone result and the last request issued is the capture call; and
  every reconstruct call in the log, as well as the capture call in flight, has a capture
  call of its own before it.
\<close>

definition session_inv :: "world \<Rightarrow> bool" where
  "session_inv w =
     ((pending w \<noteq> None \<longrightarrow> isLoading w \<and> previewUrl w = [])
      \<and> (pending w = Some AwaitScrape \<longrightarrow>
           scrapedData w = None \<and> cloneResult w = None
           \<and> requests w \<noteq> [] \<and> \<not> isCloneRequest (last (requests w)))
      \<and> length (filter isCloneRequest (requests w))
           + (if pending w = Some AwaitScrape then 1 else 0)
          \<le> length (filter (\<lambda>r. \<not> isCloneRequest r) (requests w)))"

subsection \<open>Fixtures for the concrete scenarios\<close>

text \<open>
  A stand-in for the URL parser that accepts exactly the address of the scenarios, and
  one value of each response type.
\<close>

definition exampleParse :: "string \<Rightarrow> string option" where
  "exampleParse s = (if s = ''https://example.com'' then Some ''https:'' else None)"

definition exampleScraped :: ScrapedData where
  "exampleScraped = \<lparr> sd_url = ''https://example.com'', sd_title = ''Example Domain'',
     sd_screenshot = None,
     sd_structure = \<lparr> h1 = ''Example Domain'', h2 = [], navigation = False,
                      footer = False, sidebar = False \<rparr>,
     sd_images = [],
     sd_stats = \<lparr> images_found = 0, stats_has_screenshot = False, css_rules = 3,
                  dom_elements = 12 \<rparr>,
     sd_timestamp = ''t1'', sd_status = ''success'' \<rparr>"

definition exampleClone :: "string \<Rightarrow> CloneResult" where
  "exampleClone markup = \<lparr> cr_status = ''success'', model_used = ''gpt-4o'',
     html_content = markup, cr_timestamp = ''t2'',
     processing_info = \<lparr> context_length = 100, info_has_screenshot = False,
                         images_processed = 0 \<rparr> \<rparr>"

text \<open>
  What holds of every world the page can reach, on the side of the object URLs: no URL was
  revoked twice, every revoked URL was created by the page, and a preview URL in the
  session was created by the page and has not been revoked.
\<close>

definition revoke_inv :: "world \<Rightarrow> bool" where
  "revoke_inv w =
     (distinct (revoked w)
      \<and> (\<forall>u \<in> set (revoked w). \<exists>k < blobCounter w. u = blobUrl k)
      \<and> (previewUrl w \<noteq> [] \<longrightarrow>
           (\<exists>k < blobCounter w. previewUrl w = blobUrl k)
           \<and> previewUrl w \<notin> set (revoked w)))"

text \<open>
  Scenario traces: a run that completes; a run waiting for the capture call; a run
  waiting for the reconstruct call; a reset while the reconstruct call is in flight; a run
  whose reconstruct call returns empty markup.
\<close>

definition completedRun :: "event list" where
  "completedRun = [TypeUrl ''example.com'', ClickClone,
     ScrapeSettled (RespOk (Json exampleScraped)),
     CloneSettled (RespOk (Json (exampleClone ''<p>hi</p>'')))]"

definition captureInFlight :: "event list" where
  "captureInFlight = [TypeUrl ''example.com'', ClickClone]"

definition cloneInFlight :: "event list" where
  "cloneInFlight = [TypeUrl ''example.com'', ClickClone,
     ScrapeSettled (RespOk (Json exampleScraped))]"

definition resetWhileCloning :: "event list" where
  "resetWhileCloning = [TypeUrl ''example.com'', ClickClone,
     ScrapeSettled (RespOk (Json exampleScraped)), ClickReset]"

definition emptyMarkupRun :: "event list" where
  "emptyMarkupRun = [TypeUrl ''example.com'', ClickClone,
     ScrapeSettled (RespOk (Json exampleScraped)),
     CloneSettled (RespOk (Json (exampleClone [])))]"

section \<open>The invariant of the reachable worlds\<close>

lemma initial_inv: "session_inv initial"
  by (simp add: session_inv_def initial_def)

lemma executeCloning_inv:
  "session_inv w \<Longrightarrow> \<not> isLoading w \<Longrightarrow> session_inv (executeCloning parse w)"
  by (auto simp: session_inv_def executeCloning_def Let_def)

lemma resetForm_inv: "session_inv w \<Longrightarrow> session_inv (resetForm w)"
  by (auto simp: session_inv_def resetForm_def revokeObjectURL_def Let_def)

lemma catchFinally_inv: "session_inv w \<Longrightarrow> session_inv (catchFinally m w)"
  by (auto simp: session_inv_def catchFinally_def)

lemma scrapeSettled_inv:
  "session_inv w \<Longrightarrow> pending w = Some AwaitScrape \<Longrightarrow> session_inv (scrapeSettled r w)"
proof (cases "awaitJson ''Website scraping failed'' r")
  case (Inl m)
  assume "session_inv w"
  with Inl show ?thesis by (simp add: scrapeSettled_def catchFinally_inv)
next
  case (Inr d)
  assume "session_inv w" "pending w = Some AwaitScrape"
  with Inr show ?thesis by (auto simp: scrapeSettled_def session_inv_def)
qed

lemma cloneSettled_inv:
  "session_inv w \<Longrightarrow> session_inv (cloneSettled r w)"
proof (cases "awaitJson ''AI cloning failed'' r")
  case (Inl m)
  assume "session_inv w"
  with Inl show ?thesis by (simp add: cloneSettled_def catchFinally_inv)
next
  case (Inr c)
  assume "session_inv w"
  with Inr show ?thesis
    by (auto simp: cloneSettled_def session_inv_def storePreview_def createObjectURL_def Let_def)
qed

lemma downloadHtml_inv: "session_inv w \<Longrightarrow> session_inv (downloadHtml w)"
  by (auto simp: session_inv_def downloadHtml_def createObjectURL_def revokeObjectURL_def split: option.splits)

lemma step_inv: "session_inv w \<Longrightarrow> session_inv (step parse w e)"
proof (cases e)
  case (TypeUrl s)
  assume "session_inv w"
  with TypeUrl show ?thesis by (auto simp: step_def session_inv_def)
next
  case PressEnter
  assume "session_inv w"
  with PressEnter show ?thesis by (simp add: step_def executeCloning_inv)
next
  case ClickClone
  assume "session_inv w"
  with ClickClone show ?thesis by (simp add: step_def executeCloning_inv)
next
  case ClickReset
  assume "session_inv w"
  with ClickReset show ?thesis by (simp add: step_def resetForm_inv)
next
  case ClickDownload
  assume "session_inv w"
  with ClickDownload show ?thesis by (simp add: step_def downloadHtml_inv)
next
  case (ScrapeSettled r)
  assume "session_inv w"
  with ScrapeSettled show ?thesis by (simp add: step_def scrapeSettled_inv)
next
  case (CloneSettled r)
  assume "session_inv w"
  with CloneSettled show ?thesis by (simp add: step_def cloneSettled_inv)
qed (auto simp: step_def session_inv_def)

lemma run_inv: "session_inv w \<Longrightarrow> session_inv (run parse w es)"
  by (induction es arbitrary: w) (simp_all add: step_inv)

lemma reachable_inv: "session_inv (run parse initial es)"
  by (rule run_inv [OF initial_inv])

section \<open>The invariant of the object URLs\<close>

lemma blobUrl_inj: "(blobUrl n = blobUrl k) = (n = k)"
proof
  assume "blobUrl n = blobUrl k"
  then have "length (blobUrl n) = length (blobUrl k)" by simp
  then show "n = k" by (simp add: blobUrl_def)
qed simp

lemma blobUrl_fresh:
  "\<forall>u \<in> set us. \<exists>k < n. u = blobUrl k \<Longrightarrow> blobUrl n \<notin> set us"
  by (auto simp: blobUrl_inj)

lemma initial_revoke_inv: "revoke_inv initial"
  by (simp add: revoke_inv_def initial_def)

lemma executeCloning_revoke_inv: "revoke_inv w \<Longrightarrow> revoke_inv (executeCloning parse w)"
  by (auto simp: revoke_inv_def executeCloning_def Let_def)

lemma resetForm_revoke_inv: "revoke_inv w \<Longrightarrow> revoke_inv (resetForm w)"
  by (auto simp: revoke_inv_def resetForm_def revokeObjectURL_def Let_def)

lemma catchFinally_revoke_inv: "revoke_inv w \<Longrightarrow> revoke_inv (catchFinally m w)"
  by (simp add: revoke_inv_def catchFinally_def)

lemma scrapeSettled_revoke_inv: "revoke_inv w \<Longrightarrow> revoke_inv (scrapeSettled r w)"
proof (cases "awaitJson ''Website scraping failed'' r")
  case (Inl m)
  assume "revoke_inv w"
  with Inl show ?thesis by (simp add: scrapeSettled_def catchFinally_revoke_inv)
next
  case (Inr d)
  assume "revoke_inv w"
  with Inr show ?thesis by (simp add: scrapeSettled_def revoke_inv_def)
qed

lemma storePreview_revoke_inv: "revoke_inv w \<Longrightarrow> revoke_inv (storePreview c w)"
proof -
  assume inv: "revoke_inv w"
  then have fresh: "blobUrl (blobCounter w) \<notin> set (revoked w)"
    by (simp add: revoke_inv_def blobUrl_fresh)
  from inv have old: "\<forall>u \<in> set (revoked w). \<exists>k < Suc (blobCounter w). u = blobUrl k"
    by (auto simp: revoke_inv_def intro: less_SucI)
  from inv have "distinct (revoked w)" by (simp add: revoke_inv_def)
  with fresh old inv show ?thesis
    by (auto simp: revoke_inv_def storePreview_def createObjectURL_def)
qed

lemma cloneSettled_revoke_inv: "revoke_inv w \<Longrightarrow> revoke_inv (cloneSettled r w)"
proof (cases "awaitJson ''AI cloning failed'' r")
  case (Inl m)
  assume "revoke_inv w"
  with Inl show ?thesis by (simp add: cloneSettled_def catchFinally_revoke_inv)
next
  case (Inr c)
  assume "revoke_inv w"
  then have "revoke_inv (w\<lparr>cloneResult := Some c\<rparr>)" by (simp add: revoke_inv_def)
  then have "revoke_inv (storePreview c (w\<lparr>cloneResult := Some c\<rparr>))"
    by (rule storePreview_revoke_inv)
  with Inr show ?thesis by (simp add: cloneSettled_def Let_def revoke_inv_def)
qed

lemma downloadHtml_revoke_inv: "revoke_inv w \<Longrightarrow> revoke_inv (downloadHtml w)"
proof -
  assume inv: "revoke_inv w"
  then have fresh: "blobUrl (blobCounter w) \<notin> set (revoked w)"
    by (simp add: revoke_inv_def blobUrl_fresh)
  from inv have old: "\<forall>u \<in> set (revoked w). \<exists>k < Suc (blobCounter w). u = blobUrl k"
    by (auto simp: revoke_inv_def intro: less_SucI)
  from inv have prev: "previewUrl w \<noteq> [] \<longrightarrow>
      (\<exists>k < Suc (blobCounter w). previewUrl w = blobUrl k)
      \<and> previewUrl w \<noteq> blobUrl (blobCounter w)"
    by (auto simp: revoke_inv_def blobUrl_inj intro: less_SucI)
  from inv fresh old prev show ?thesis
    by (auto simp: revoke_inv_def downloadHtml_def createObjectURL_def revokeObjectURL_def
          split: option.splits)
qed

lemma step_revoke_inv: "revoke_inv w \<Longrightarrow> revoke_inv (step parse w e)"
  by (cases e)
     (simp_all add: step_def executeCloning_revoke_inv resetForm_revoke_inv
        scrapeSettled_revoke_inv cloneSettled_revoke_inv downloadHtml_revoke_inv,
      simp_all add: revoke_inv_def)

lemma run_revoke_inv: "revoke_inv w \<Longrightarrow> revoke_inv (run parse w es)"
  by (induction es arbitrary: w) (simp_all add: step_revoke_inv)

lemma reachable_revoke_inv: "revoke_inv (run parse initial es)"
  by (rule run_revoke_inv [OF initial_revoke_inv])

section \<open>A stage that fails\<close>

lemma failed_Inl: "failed r \<Longrightarrow> \<exists>m. awaitJson fb r = Inl m"
  by (cases "(fb, r)" rule: awaitJson.cases) simp_all

lemma scrapeSettled_failed: "failed r \<Longrightarrow> \<exists>m. scrapeSettled r w = catchFinally m w"
proof -
  assume "failed r"
  then obtain m where "awaitJson ''Website scraping failed'' r = Inl m"
    using failed_Inl by blast
  then have "scrapeSettled r w = catchFinally m w" by (simp add: scrapeSettled_def)
  then show ?thesis ..
qed

lemma cloneSettled_failed: "failed r \<Longrightarrow> \<exists>m. cloneSettled r w = catchFinally m w"
proof -
  assume "failed r"
  then obtain m where "awaitJson ''AI cloning failed'' r = Inl m"
    using failed_Inl by blast
  then have "cloneSettled r w = catchFinally m w" by (simp add: cloneSettled_def)
  then show ?thesis ..
qed

section \<open>The scenario addresses, trimmed\<close>

lemma trim_empty: "trim [] = []"
  by (simp add: trim_def)

lemma trim_example: "trim ''example.com'' = ''example.com''"
  by (simp add: trim_def whiteSpace_def startsWith_def)

lemma trim_not_a_url: "trim ''not a url'' = ''not a url''"
  by (simp add: trim_def whiteSpace_def startsWith_def)

section \<open>Unfolding\<close>

lemmas handler_defs = step_def executeCloning_def scrapeSettled_def cloneSettled_def
  storePreview_def createObjectURL_def revokeObjectURL_def resetForm_def downloadHtml_def
  catchFinally_def detailOr_def Let_def

lemmas fixture_defs = initial_def exampleParse_def exampleScraped_def exampleClone_def
  trim_empty trim_example trim_not_a_url startsWith_def addHttpsIfNeeded_def validateUrl_def blobUrl_def
  completedRun_def captureInFlight_def cloneInFlight_def resetWhileCloning_def
  emptyMarkupRun_def

section \<open>Normalisation\<close>

text \<open>
  C9. An address that starts with neither \<open>http://\<close> nor \<open>https://\<close> gets \<open>https://\<close>
  in front; an address that starts with one of the two is returned as it is. The handler
  normalises the trimmed address before it validates it, and the capture call carries the
  normalised address.
\<close>

theorem C9_addHttpsIfNeeded:
  "(\<not> startsWith s ''http://'' \<and> \<not> startsWith s ''https://''
      \<longrightarrow> addHttpsIfNeeded s = ''https://'' @ s)
   \<and> (startsWith s ''http://'' \<or> startsWith s ''https://'' \<longrightarrow> addHttpsIfNeeded s = s)
   \<and> (trim (url w) \<noteq> [] \<and> validateUrl parse (addHttpsIfNeeded (trim (url w)))
      \<longrightarrow> issued parse w PressEnter =
            (if isLoading w then []
             else [ScrapeRequest (addHttpsIfNeeded (trim (url w))) True
                     (viewportWidth w) (viewportHeight w) (waitTime w)]))"
  by (auto simp: addHttpsIfNeeded_def issued_def step_def executeCloning_def)

theorem C9_addHttpsIfNeeded_witness:
  "\<not> startsWith ''example.com'' ''http://'' \<and> \<not> startsWith ''example.com'' ''https://''
   \<and> addHttpsIfNeeded ''example.com'' = ''https://example.com''
   \<and> startsWith ''http://example.com'' ''http://''
   \<and> addHttpsIfNeeded ''http://example.com'' = ''http://example.com''
   \<and> trim (url (initial\<lparr>url := '' example.com ''\<rparr>)) \<noteq> []
   \<and> validateUrl exampleParse
        (addHttpsIfNeeded (trim (url (initial\<lparr>url := '' example.com ''\<rparr>))))
   \<and> issued exampleParse (initial\<lparr>url := '' example.com ''\<rparr>) PressEnter =
        [ScrapeRequest ''https://example.com'' True 1280 720 8000]
   \<and> trim (url (initial\<lparr>url := [CHR 0xC2, CHR 0xA0] @ ''example.com''
                                   @ [CHR 0xE2, CHR 0x80, CHR 0xA8]\<rparr>)) \<noteq> []
   \<and> validateUrl exampleParse
        (addHttpsIfNeeded (trim (url (initial\<lparr>url := [CHR 0xC2, CHR 0xA0] @ ''example.com''
                                   @ [CHR 0xE2, CHR 0x80, CHR 0xA8]\<rparr>))))
   \<and> issued exampleParse (initial\<lparr>url := [CHR 0xC2, CHR 0xA0] @ ''example.com''
                                   @ [CHR 0xE2, CHR 0x80, CHR 0xA8]\<rparr>) PressEnter =
        [ScrapeRequest ''https://example.com'' True 1280 720 8000]"
  using C9_addHttpsIfNeeded
          [of "''example.com''" "initial\<lparr>url := '' example.com ''\<rparr>" exampleParse]
        C9_addHttpsIfNeeded [of "''http://example.com''" initial exampleParse]
        C9_addHttpsIfNeeded
          [of "''example.com''"
              "initial\<lparr>url := [CHR 0xC2, CHR 0xA0] @ ''example.com''
                                   @ [CHR 0xE2, CHR 0x80, CHR 0xA8]\<rparr>" exampleParse]
  by (simp add: startsWith_def trim_def whiteSpace_def initial_def validateUrl_def
        exampleParse_def)

section \<open>Validation\<close>

text \<open>
  C8. When the address typed fails validation (it is empty after trimming, or the
  normalised address does not parse or has another protocol than http and https),
  \<open>executeCloning\<close> sets the error text (the one asking for an address when the input is
  empty, the one asking for a valid address otherwise) and returns: it appends nothing to
  the requests, so no capture call is issued, whether the run was started with Enter or
  with the button, and the page is as busy as before (not loading, no handler suspended).
\<close>

theorem C8_validation_failure:
  "failsValidation parse (url w) \<longrightarrow>
     error (executeCloning parse w) =
       (if trim (url w) = [] then ''Please enter a website URL''
        else ''Please enter a valid URL (e.g., https://example.com)'')
     \<and> requests (executeCloning parse w) = requests w
     \<and> issued parse w PressEnter = [] \<and> issued parse w ClickClone = []
     \<and> isLoading (executeCloning parse w) = isLoading w
     \<and> pending (executeCloning parse w) = pending w"
  by (auto simp: failsValidation_def executeCloning_def issued_def step_def Let_def)

theorem C8_validation_failure_witness:
  "failsValidation exampleParse (url initial)
   \<and> failsValidation exampleParse (url (initial\<lparr>url := ''not a url''\<rparr>))
   \<and> failsValidation exampleParse (url (initial\<lparr>url := [CHR 0xC2, CHR 0xA0, CHR 0x20]\<rparr>))
   \<and> error (executeCloning exampleParse initial) = ''Please enter a website URL''
   \<and> error (executeCloning exampleParse (initial\<lparr>url := [CHR 0xC2, CHR 0xA0, CHR 0x20]\<rparr>))
       = ''Please enter a website URL''
   \<and> error (executeCloning exampleParse (initial\<lparr>url := ''not a url''\<rparr>)) =
        ''Please enter a valid URL (e.g., https://example.com)''
   \<and> requests (executeCloning exampleParse initial) = []
   \<and> requests (executeCloning exampleParse (initial\<lparr>url := ''not a url''\<rparr>)) = []
   \<and> \<not> isLoading (executeCloning exampleParse initial)
   \<and> pending (executeCloning exampleParse initial) = None"
  using C8_validation_failure [of exampleParse initial]
        C8_validation_failure [of exampleParse "initial\<lparr>url := ''not a url''\<rparr>"]
        C8_validation_failure
          [of exampleParse "initial\<lparr>url := [CHR 0xC2, CHR 0xA0, CHR 0x20]\<rparr>"]
  by (simp add: failsValidation_def trim_def whiteSpace_def initial_def validateUrl_def
        exampleParse_def addHttpsIfNeeded_def startsWith_def)

text \<open>
  C10. When the address typed fails validation, \<open>executeCloning\<close> changes the error text
  and nothing else: the captured data, the clone result, the preview URL and the progress
  text of an earlier run stay as they were, and no object URL is revoked.
\<close>

theorem C10_validation_failure_frame:
  "failsValidation parse (url w) \<longrightarrow>
     executeCloning parse w = w\<lparr>error := error (executeCloning parse w)\<rparr>
     \<and> scrapedData (executeCloning parse w) = scrapedData w
     \<and> cloneResult (executeCloning parse w) = cloneResult w
     \<and> previewUrl (executeCloning parse w) = previewUrl w
     \<and> currentStep (executeCloning parse w) = currentStep w
     \<and> liveBlobs (executeCloning parse w) = liveBlobs w
     \<and> revoked (executeCloning parse w) = revoked w"
  by (auto simp: failsValidation_def executeCloning_def Let_def)

theorem C10_validation_failure_frame_witness:
  "failsValidation exampleParse
     (url (run exampleParse initial (completedRun @ [TypeUrl ''not a url''])))
   \<and> error (executeCloning exampleParse
        (run exampleParse initial (completedRun @ [TypeUrl ''not a url''])))
       = ''Please enter a valid URL (e.g., https://example.com)''
   \<and> scrapedData (executeCloning exampleParse
        (run exampleParse initial (completedRun @ [TypeUrl ''not a url''])))
       = Some exampleScraped
   \<and> cloneResult (executeCloning exampleParse
        (run exampleParse initial (completedRun @ [TypeUrl ''not a url''])))
       = Some (exampleClone ''<p>hi</p>'')
   \<and> previewUrl (executeCloning exampleParse
        (run exampleParse initial (completedRun @ [TypeUrl ''not a url''])))
       = blobUrl 0
   \<and> revoked (executeCloning exampleParse
        (run exampleParse initial (completedRun @ [TypeUrl ''not a url''])))
       = []"
  using C10_validation_failure_frame
          [of exampleParse "run exampleParse initial (completedRun @ [TypeUrl ''not a url''])"]
  by (simp add: failsValidation_def handler_defs fixture_defs)

section \<open>Reset\<close>

text \<open>
  C5. After \<open>resetForm\<close> the address, the captured data, the clone result, the error, the
  progress text and the preview URL are all empty. It revokes the preview URL when there
  was one, once, and revokes nothing when there was none; a second reset revokes nothing
  more. Revoking a URL a second time leaves the store of live object URLs as the first
  revocation left it. Whatever happens to the page, it never revokes a URL twice, and a
  preview URL held by the session has not been revoked yet.
\<close>

theorem C5_resetForm:
  "url (resetForm w) = [] \<and> scrapedData (resetForm w) = None
   \<and> cloneResult (resetForm w) = None \<and> error (resetForm w) = []
   \<and> currentStep (resetForm w) = [] \<and> previewUrl (resetForm w) = []
   \<and> revoked (resetForm w) = revoked w @ (if previewUrl w = [] then [] else [previewUrl w])
   \<and> liveBlobs (resetForm w) =
       (if previewUrl w = [] then liveBlobs w
        else filter (\<lambda>kv. fst kv \<noteq> previewUrl w) (liveBlobs w))
   \<and> revoked (resetForm (resetForm w)) = revoked (resetForm w)
   \<and> liveBlobs (revokeObjectURL u (revokeObjectURL u w)) = liveBlobs (revokeObjectURL u w)
   \<and> distinct (revoked (run parse initial es))
   \<and> (previewUrl (run parse initial es) \<noteq> [] \<longrightarrow>
        previewUrl (run parse initial es) \<notin> set (revoked (run parse initial es)))"
  using reachable_revoke_inv [of parse es]
  by (simp add: resetForm_def revokeObjectURL_def Let_def revoke_inv_def)

theorem C5_resetForm_witness:
  "previewUrl (run exampleParse initial completedRun) = blobUrl 0
   \<and> liveBlobs (run exampleParse initial completedRun) = [(blobUrl 0, ''<p>hi</p>'')]
   \<and> previewUrl (resetForm (run exampleParse initial completedRun)) = []
   \<and> scrapedData (resetForm (run exampleParse initial completedRun)) = None
   \<and> cloneResult (resetForm (run exampleParse initial completedRun)) = None
   \<and> revoked (resetForm (run exampleParse initial completedRun)) = [blobUrl 0]
   \<and> liveBlobs (resetForm (run exampleParse initial completedRun)) = []
   \<and> revoked (resetForm (resetForm (run exampleParse initial completedRun))) = [blobUrl 0]
   \<and> previewUrl (run exampleParse initial completedRun) \<noteq> []
   \<and> previewUrl (run exampleParse initial completedRun)
       \<notin> set (revoked (run exampleParse initial completedRun))"
  using C5_resetForm
          [of "run exampleParse initial completedRun" "blobUrl 0" exampleParse completedRun]
  by (simp add: handler_defs fixture_defs)

section \<open>The order of the two calls\<close>

text \<open>
  C3. A step issues a reconstruct call exactly when the handler waits for the capture
  call and that call settles with an ok response whose body parses; the call then
  carries that body, which the same step stores as the captured data, and it is the only
  request of the step. In every world the page reaches, the reconstruct calls issued so
  far are at most as many as the capture calls.
\<close>

theorem C3_reconstruct_after_capture:
  "(CloneRequest m r i d \<in> set (issued parse w e)) =
     (pending w = Some AwaitScrape \<and> e = ScrapeSettled (RespOk (Json d))
      \<and> m = ''gpt-4o'' \<and> r \<and> i)
   \<and> (CloneRequest m r i d \<in> set (issued parse w e) \<longrightarrow>
        scrapedData (step parse w e) = Some d
        \<and> issued parse w e = [CloneRequest m r i d])
   \<and> length (filter isCloneRequest (requests (run parse initial es)))
       \<le> length (filter (\<lambda>q. \<not> isCloneRequest q) (requests (run parse initial es)))"
proof -
  have issued_ok: "issued parse w (ScrapeSettled (RespOk (Json v))) =
      (if pending w = Some AwaitScrape then [CloneRequest ''gpt-4o'' True True v] else [])" for v
    by (simp add: issued_def step_def scrapeSettled_def)
  have issued_fail: "issued parse w (ScrapeSettled x) = []"
    if "awaitJson ''Website scraping failed'' x = Inl a" for x a
    using that by (simp add: issued_def step_def scrapeSettled_def catchFinally_def)
  have other: "issued parse w e = [] \<or> (\<exists>u c a b t. issued parse w e = [ScrapeRequest u c a b t])"
    if "\<forall>x. e \<noteq> ScrapeSettled x"
    using that
    by (cases e)
       (auto simp: issued_def step_def executeCloning_def resetForm_def revokeObjectURL_def
          downloadHtml_def createObjectURL_def cloneSettled_def catchFinally_def
          storePreview_def Let_def split: sum.splits option.splits)
  have A: "(CloneRequest m r i d \<in> set (issued parse w e)) =
     (pending w = Some AwaitScrape \<and> e = ScrapeSettled (RespOk (Json d))
      \<and> m = ''gpt-4o'' \<and> r \<and> i)"
  proof (cases "\<exists>x. e = ScrapeSettled x")
    case True
    then obtain x where ex: "e = ScrapeSettled x" by blast
    show ?thesis
    proof (cases x)
      case (Rejected a)
      then show ?thesis by (simp add: ex issued_fail)
    next
      case (RespNotOk b)
      then show ?thesis by (cases b) (simp_all add: ex issued_fail)
    next
      case (RespOk b)
      then show ?thesis by (cases b) (auto simp: ex issued_fail issued_ok)
    qed
  next
    case False
    with other show ?thesis by fastforce
  qed
  have B: "CloneRequest m r i d \<in> set (issued parse w e) \<longrightarrow>
        scrapedData (step parse w e) = Some d \<and> issued parse w e = [CloneRequest m r i d]"
    unfolding A
    by (auto simp: issued_ok step_def scrapeSettled_def)
  have C: "length (filter isCloneRequest (requests (run parse initial es)))
       \<le> length (filter (\<lambda>q. \<not> isCloneRequest q) (requests (run parse initial es)))"
    using reachable_inv [of parse es] by (simp add: session_inv_def split: if_splits)
  from A B C show ?thesis by blast
qed

theorem C3_reconstruct_after_capture_witness:
  "pending (run exampleParse initial captureInFlight) = Some AwaitScrape
   \<and> CloneRequest ''gpt-4o'' True True exampleScraped
       \<in> set (issued exampleParse (run exampleParse initial captureInFlight)
                (ScrapeSettled (RespOk (Json exampleScraped))))
   \<and> scrapedData (step exampleParse (run exampleParse initial captureInFlight)
                (ScrapeSettled (RespOk (Json exampleScraped)))) = Some exampleScraped
   \<and> CloneRequest ''gpt-4o'' True True exampleScraped
       \<notin> set (issued exampleParse (run exampleParse initial captureInFlight)
                (ScrapeSettled (Rejected ''Failed to fetch'')))
   \<and> length (filter isCloneRequest (requests (run exampleParse initial completedRun))) \<le> 1"
  using C3_reconstruct_after_capture
          [of "''gpt-4o''" True True exampleScraped exampleParse
              "run exampleParse initial captureInFlight"
              "ScrapeSettled (RespOk (Json exampleScraped))" completedRun]
        C3_reconstruct_after_capture
          [of "''gpt-4o''" True True exampleScraped exampleParse
              "run exampleParse initial captureInFlight"
              "ScrapeSettled (Rejected ''Failed to fetch'')" completedRun]
  by (simp add: issued_def handler_defs fixture_defs)

section \<open>Failure of a stage\<close>

text \<open>
  C4, as stated, fails for a transport failure and for a body that does not parse: there
  is no detail, and the error text is not the fixed text of the stage but the message of
  the error thrown, here the one of a rejected fetch and the one of the JSON parser.
\<close>

theorem C4_thrown_message_counterexample:
  "error (step exampleParse (run exampleParse initial captureInFlight)
      (ScrapeSettled (Rejected ''Failed to fetch'')))
     = ''Failed to clone website: Failed to fetch''
   \<and> error (step exampleParse (run exampleParse initial captureInFlight)
      (ScrapeSettled (Rejected ''Failed to fetch'')))
     \<noteq> ''Failed to clone website: Website scraping failed''
   \<and> error (step exampleParse (run exampleParse initial captureInFlight)
      (ScrapeSettled (RespNotOk (BadJson ''Unexpected end of JSON input''))))
     = ''Failed to clone website: Unexpected end of JSON input''
   \<and> error (step exampleParse (run exampleParse initial cloneInFlight)
      (CloneSettled (Rejected ''Failed to fetch'')))
     = ''Failed to clone website: Failed to fetch''"
  by (simp add: handler_defs fixture_defs)

text \<open>
  C4, amended. When a stage fails the error text is \<open>Failed to clone website: \<close> followed
  by a message with one of three sources: the detail of the body, when the response is
  not ok and its body parses with a non-empty detail; the fixed text of the stage
  (\<open>Website scraping failed\<close>, \<open>AI cloning failed\<close>), when that body has no detail or an
  empty one; the message of the error thrown, when the fetch rejects or a body does not
  parse, whether the response was ok or not. Whatever the failure, the page stops
  loading, no handler stays suspended, the progress text is empty, no request is issued,
  no object URL is created or revoked, and the preview URL, the captured data and the
  clone result stay as they were. A failing reconstruct call thus leaves the captured
  data where the capture stage stored it, and in every world the page reaches the preview
  URL is empty while a run is in flight, so it is empty after the failure.
\<close>

theorem C4_stage_failure:
  "(pending w = Some AwaitScrape \<longrightarrow>
      error (step parse w (ScrapeSettled (RespNotOk (Json \<lparr>detail = Some d\<rparr>)))) =
        ''Failed to clone website: '' @ (if d = [] then ''Website scraping failed'' else d)
      \<and> error (step parse w (ScrapeSettled (RespNotOk (Json \<lparr>detail = None\<rparr>)))) =
          ''Failed to clone website: Website scraping failed''
      \<and> error (step parse w (ScrapeSettled (Rejected msg))) =
          ''Failed to clone website: '' @ msg
      \<and> error (step parse w (ScrapeSettled (RespNotOk (BadJson msg)))) =
          ''Failed to clone website: '' @ msg
      \<and> error (step parse w (ScrapeSettled (RespOk (BadJson msg)))) =
          ''Failed to clone website: '' @ msg)
   \<and> (pending w = Some AwaitClone \<longrightarrow>
      error (step parse w (CloneSettled (RespNotOk (Json \<lparr>detail = Some d\<rparr>)))) =
        ''Failed to clone website: '' @ (if d = [] then ''AI cloning failed'' else d)
      \<and> error (step parse w (CloneSettled (RespNotOk (Json \<lparr>detail = None\<rparr>)))) =
          ''Failed to clone website: AI cloning failed''
      \<and> error (step parse w (CloneSettled (Rejected msg))) =
          ''Failed to clone website: '' @ msg
      \<and> error (step parse w (CloneSettled (RespNotOk (BadJson msg)))) =
          ''Failed to clone website: '' @ msg
      \<and> error (step parse w (CloneSettled (RespOk (BadJson msg)))) =
          ''Failed to clone website: '' @ msg)
   \<and> (pending w = Some AwaitScrape \<and> failed r1 \<longrightarrow>
      \<not> isLoading (step parse w (ScrapeSettled r1))
      \<and> pending (step parse w (ScrapeSettled r1)) = None
      \<and> currentStep (step parse w (ScrapeSettled r1)) = []
      \<and> issued parse w (ScrapeSettled r1) = []
      \<and> previewUrl (step parse w (ScrapeSettled r1)) = previewUrl w
      \<and> liveBlobs (step parse w (ScrapeSettled r1)) = liveBlobs w
      \<and> blobCounter (step parse w (ScrapeSettled r1)) = blobCounter w
      \<and> revoked (step parse w (ScrapeSettled r1)) = revoked w
      \<and> scrapedData (step parse w (ScrapeSettled r1)) = scrapedData w
      \<and> cloneResult (step parse w (ScrapeSettled r1)) = cloneResult w)
   \<and> (pending w = Some AwaitClone \<and> failed r2 \<longrightarrow>
      \<not> isLoading (step parse w (CloneSettled r2))
      \<and> pending (step parse w (CloneSettled r2)) = None
      \<and> currentStep (step parse w (CloneSettled r2)) = []
      \<and> issued parse w (CloneSettled r2) = []
      \<and> previewUrl (step parse w (CloneSettled r2)) = previewUrl w
      \<and> liveBlobs (step parse w (CloneSettled r2)) = liveBlobs w
      \<and> blobCounter (step parse w (CloneSettled r2)) = blobCounter w
      \<and> revoked (step parse w (CloneSettled r2)) = revoked w
      \<and> scrapedData (step parse w (CloneSettled r2)) = scrapedData w
      \<and> cloneResult (step parse w (CloneSettled r2)) = cloneResult w)
   \<and> (failed r2 \<longrightarrow>
      scrapedData (cloneSettled r2 (scrapeSettled (RespOk (Json sd)) w)) = Some sd)
   \<and> (pending (run parse initial es) \<noteq> None \<longrightarrow> previewUrl (run parse initial es) = [])"
proof -
  have capture_text: "pending w = Some AwaitScrape \<longrightarrow>
      error (step parse w (ScrapeSettled (RespNotOk (Json \<lparr>detail = Some d\<rparr>)))) =
        ''Failed to clone website: '' @ (if d = [] then ''Website scraping failed'' else d)
      \<and> error (step parse w (ScrapeSettled (RespNotOk (Json \<lparr>detail = None\<rparr>)))) =
          ''Failed to clone website: Website scraping failed''
      \<and> error (step parse w (ScrapeSettled (Rejected msg))) =
          ''Failed to clone website: '' @ msg
      \<and> error (step parse w (ScrapeSettled (RespNotOk (BadJson msg)))) =
          ''Failed to clone website: '' @ msg
      \<and> error (step parse w (ScrapeSettled (RespOk (BadJson msg)))) =
          ''Failed to clone website: '' @ msg"
    by (simp add: step_def scrapeSettled_def catchFinally_def detailOr_def)
  have reconstruct_text: "pending w = Some AwaitClone \<longrightarrow>
      error (step parse w (CloneSettled (RespNotOk (Json \<lparr>detail = Some d\<rparr>)))) =
        ''Failed to clone website: '' @ (if d = [] then ''AI cloning failed'' else d)
      \<and> error (step parse w (CloneSettled (RespNotOk (Json \<lparr>detail = None\<rparr>)))) =
          ''Failed to clone website: AI cloning failed''
      \<and> error (step parse w (CloneSettled (Rejected msg))) =
          ''Failed to clone website: '' @ msg
      \<and> error (step parse w (CloneSettled (RespNotOk (BadJson msg)))) =
          ''Failed to clone website: '' @ msg
      \<and> error (step parse w (CloneSettled (RespOk (BadJson msg)))) =
          ''Failed to clone website: '' @ msg"
    by (simp add: step_def cloneSettled_def catchFinally_def detailOr_def)
  have capture_effects: "pending w = Some AwaitScrape \<and> failed r1 \<longrightarrow>
      \<not> isLoading (step parse w (ScrapeSettled r1))
      \<and> pending (step parse w (ScrapeSettled r1)) = None
      \<and> currentStep (step parse w (ScrapeSettled r1)) = []
      \<and> issued parse w (ScrapeSettled r1) = []
      \<and> previewUrl (step parse w (ScrapeSettled r1)) = previewUrl w
      \<and> liveBlobs (step parse w (ScrapeSettled r1)) = liveBlobs w
      \<and> blobCounter (step parse w (ScrapeSettled r1)) = blobCounter w
      \<and> revoked (step parse w (ScrapeSettled r1)) = revoked w
      \<and> scrapedData (step parse w (ScrapeSettled r1)) = scrapedData w
      \<and> cloneResult (step parse w (ScrapeSettled r1)) = cloneResult w"
  proof
    assume h: "pending w = Some AwaitScrape \<and> failed r1"
    then obtain m where "scrapeSettled r1 w = catchFinally m w"
      using scrapeSettled_failed by blast
    with h show "\<not> isLoading (step parse w (ScrapeSettled r1))
      \<and> pending (step parse w (ScrapeSettled r1)) = None
      \<and> currentStep (step parse w (ScrapeSettled r1)) = []
      \<and> issued parse w (ScrapeSettled r1) = []
      \<and> previewUrl (step parse w (ScrapeSettled r1)) = previewUrl w
      \<and> liveBlobs (step parse w (ScrapeSettled r1)) = liveBlobs w
      \<and> blobCounter (step parse w (ScrapeSettled r1)) = blobCounter w
      \<and> revoked (step parse w (ScrapeSettled r1)) = revoked w
      \<and> scrapedData (step parse w (ScrapeSettled r1)) = scrapedData w
      \<and> cloneResult (step parse w (ScrapeSettled r1)) = cloneResult w"
      by (simp add: step_def issued_def catchFinally_def)
  qed
  have reconstruct_effects: "pending w = Some AwaitClone \<and> failed r2 \<longrightarrow>
      \<not> isLoading (step parse w (CloneSettled r2))
      \<and> pending (step parse w (CloneSettled r2)) = None
      \<and> currentStep (step parse w (CloneSettled r2)) = []
      \<and> issued parse w (CloneSettled r2) = []
      \<and> previewUrl (step parse w (CloneSettled r2)) = previewUrl w
      \<and> liveBlobs (step parse w (CloneSettled r2)) = liveBlobs w
      \<and> blobCounter (step parse w (CloneSettled r2)) = blobCounter w
      \<and> revoked (step parse w (CloneSettled r2)) = revoked w
      \<and> scrapedData (step parse w (CloneSettled r2)) = scrapedData w
      \<and> cloneResult (step parse w (CloneSettled r2)) = cloneResult w"
  proof
    assume h: "pending w = Some AwaitClone \<and> failed r2"
    then obtain m where "cloneSettled r2 w = catchFinally m w"
      using cloneSettled_failed by blast
    with h show "\<not> isLoading (step parse w (CloneSettled r2))
      \<and> pending (step parse w (CloneSettled r2)) = None
      \<and> currentStep (step parse w (CloneSettled r2)) = []
      \<and> issued parse w (CloneSettled r2) = []
      \<and> previewUrl (step parse w (CloneSettled r2)) = previewUrl w
      \<and> liveBlobs (step parse w (CloneSettled r2)) = liveBlobs w
      \<and> blobCounter (step parse w (CloneSettled r2)) = blobCounter w
      \<and> revoked (step parse w (CloneSettled r2)) = revoked w
      \<and> scrapedData (step parse w (CloneSettled r2)) = scrapedData w
      \<and> cloneResult (step parse w (CloneSettled r2)) = cloneResult w"
      by (simp add: step_def issued_def catchFinally_def)
  qed
  have retained: "failed r2 \<longrightarrow>
      scrapedData (cloneSettled r2 (scrapeSettled (RespOk (Json sd)) w)) = Some sd"
  proof
    assume "failed r2"
    then obtain m where
      "cloneSettled r2 (scrapeSettled (RespOk (Json sd)) w) =
         catchFinally m (scrapeSettled (RespOk (Json sd)) w)"
      using cloneSettled_failed by blast
    then show "scrapedData (cloneSettled r2 (scrapeSettled (RespOk (Json sd)) w)) = Some sd"
      by (simp add: catchFinally_def scrapeSettled_def)
  qed
  have no_handle: "pending (run parse initial es) \<noteq> None \<longrightarrow> previewUrl (run parse initial es) = []"
    using reachable_inv [of parse es] by (simp add: session_inv_def)
  from capture_text reconstruct_text capture_effects reconstruct_effects retained no_handle
  show ?thesis by blast
qed

theorem C4_stage_failure_witness:
  "pending (run exampleParse initial captureInFlight) = Some AwaitScrape
   \<and> failed (RespNotOk (Json \<lparr>detail = Some ''timeout''\<rparr>) :: ScrapedData fetch_result)
   \<and> error (step exampleParse (run exampleParse initial captureInFlight)
        (ScrapeSettled (RespNotOk (Json \<lparr>detail = Some ''timeout''\<rparr>))))
       = ''Failed to clone website: timeout''
   \<and> requests (step exampleParse (run exampleParse initial captureInFlight)
        (ScrapeSettled (RespNotOk (Json \<lparr>detail = Some ''timeout''\<rparr>))))
       = [ScrapeRequest ''https://example.com'' True 1280 720 8000]
   \<and> pending (run exampleParse initial cloneInFlight) = Some AwaitClone
   \<and> failed (RespNotOk (Json \<lparr>detail = None\<rparr>) :: CloneResult fetch_result)
   \<and> error (step exampleParse (run exampleParse initial cloneInFlight)
        (CloneSettled (RespNotOk (Json \<lparr>detail = None\<rparr>))))
       = ''Failed to clone website: AI cloning failed''
   \<and> scrapedData (step exampleParse (run exampleParse initial cloneInFlight)
        (CloneSettled (RespNotOk (Json \<lparr>detail = None\<rparr>)))) = Some exampleScraped
   \<and> previewUrl (step exampleParse (run exampleParse initial cloneInFlight)
        (CloneSettled (RespNotOk (Json \<lparr>detail = None\<rparr>)))) = []
   \<and> liveBlobs (step exampleParse (run exampleParse initial cloneInFlight)
        (CloneSettled (RespNotOk (Json \<lparr>detail = None\<rparr>)))) = []"
  using C4_stage_failure
          [where w = "run exampleParse initial captureInFlight" and parse = exampleParse
             and d = "''timeout''" and msg = "''Failed to fetch''"
             and ?r1.0 = "RespNotOk (Json \<lparr>detail = Some ''timeout''\<rparr>)"
             and ?r2.0 = "RespNotOk (Json \<lparr>detail = None\<rparr>)"
             and sd = exampleScraped and es = captureInFlight]
        C4_stage_failure
          [where w = "run exampleParse initial cloneInFlight" and parse = exampleParse
             and d = "''timeout''" and msg = "''Failed to fetch''"
             and ?r1.0 = "RespNotOk (Json \<lparr>detail = Some ''timeout''\<rparr>)"
             and ?r2.0 = "RespNotOk (Json \<lparr>detail = None\<rparr>)"
             and sd = exampleScraped and es = cloneInFlight]
  by (simp add: issued_def handler_defs fixture_defs)

section \<open>Success of the reconstruct call\<close>

text \<open>
  C6, as stated, fails for empty markup: the reconstruct call succeeds and the run
  completes, the clone result is stored, but no object URL is created and the preview URL
  stays empty.
\<close>

theorem C6_empty_markup_counterexample:
  "cloneResult (run exampleParse initial emptyMarkupRun) = Some (exampleClone [])
   \<and> scrapedData (run exampleParse initial emptyMarkupRun) = Some exampleScraped
   \<and> currentStep (run exampleParse initial emptyMarkupRun) = stepCompleted
   \<and> \<not> isLoading (run exampleParse initial emptyMarkupRun)
   \<and> previewUrl (run exampleParse initial emptyMarkupRun) = []
   \<and> liveBlobs (run exampleParse initial emptyMarkupRun) = []"
  by (simp add: handler_defs fixture_defs)

text \<open>
  C6, amended. A run started with the button on an address that passes validation, whose
  capture call and reconstruct call both succeed with no other event in between, ends not
  loading, with the completion text, no error, the captured data and the clone result
  stored, and nothing revoked. When the markup is not empty, one object URL wrapping the
  markup is created and stored as the preview URL; when the markup is empty, none is
  created and the preview URL is empty. \<open>URL.createObjectURL\<close> itself gives a non-empty
  URL for every text, the empty one included.
\<close>

theorem C6_reconstruct_success:
  "(enabled w ClickClone \<and> validateUrl parse (addHttpsIfNeeded (trim (url w))) \<longrightarrow>
      (let w3 = run parse w [ClickClone, ScrapeSettled (RespOk (Json sd)),
                             CloneSettled (RespOk (Json c))]
       in scrapedData w3 = Some sd \<and> cloneResult w3 = Some c
          \<and> \<not> isLoading w3 \<and> pending w3 = None
          \<and> currentStep w3 = stepCompleted \<and> error w3 = []
          \<and> previewUrl w3 = (if html_content c = [] then [] else blobUrl (blobCounter w))
          \<and> liveBlobs w3 =
              (if html_content c = [] then liveBlobs w
               else liveBlobs w @ [(blobUrl (blobCounter w), html_content c)])
          \<and> revoked w3 = revoked w))
   \<and> blobUrl n \<noteq> []
   \<and> fst (createObjectURL s w) = blobUrl (blobCounter w)
   \<and> liveBlobs (snd (createObjectURL s w)) = liveBlobs w @ [(blobUrl (blobCounter w), s)]"
  by (simp add: handler_defs blobUrl_def)

theorem C6_reconstruct_success_witness:
  "enabled (run exampleParse initial [TypeUrl ''example.com'']) ClickClone
   \<and> validateUrl exampleParse
        (addHttpsIfNeeded (trim (url (run exampleParse initial [TypeUrl ''example.com'']))))
   \<and> scrapedData (run exampleParse initial completedRun) = Some exampleScraped
   \<and> cloneResult (run exampleParse initial completedRun) = Some (exampleClone ''<p>hi</p>'')
   \<and> previewUrl (run exampleParse initial completedRun) = ''blob:''
   \<and> liveBlobs (run exampleParse initial completedRun) = [(''blob:'', ''<p>hi</p>'')]
   \<and> \<not> isLoading (run exampleParse initial completedRun)"
  using C6_reconstruct_success
          [of "run exampleParse initial [TypeUrl ''example.com'']" exampleParse
              exampleScraped "exampleClone ''<p>hi</p>''" 0 "[]"]
  by (simp add: handler_defs fixture_defs)

section \<open>Responses after a reset\<close>

text \<open>
  C2, as stated, fails: there is no run identifier, and a reconstruct response that
  arrives after a reset is applied. After the reset of a run that waits for the
  reconstruct call the session is empty; the response then stores the clone result and
  a preview URL in it.
\<close>

theorem C2_late_response_counterexample:
  "scrapedData (run exampleParse initial resetWhileCloning) = None
   \<and> cloneResult (run exampleParse initial resetWhileCloning) = None
   \<and> previewUrl (run exampleParse initial resetWhileCloning) = []
   \<and> url (run exampleParse initial resetWhileCloning) = []
   \<and> cloneResult (run exampleParse initial
        (resetWhileCloning @ [CloneSettled (RespOk (Json (exampleClone ''<p>hi</p>'')))]))
       = Some (exampleClone ''<p>hi</p>'')
   \<and> previewUrl (run exampleParse initial
        (resetWhileCloning @ [CloneSettled (RespOk (Json (exampleClone ''<p>hi</p>'')))]))
       = ''blob:''
   \<and> liveBlobs (run exampleParse initial
        (resetWhileCloning @ [CloneSettled (RespOk (Json (exampleClone ''<p>hi</p>'')))]))
       = [(''blob:'', ''<p>hi</p>'')]"
  by (simp add: handler_defs fixture_defs)

text \<open>
  C2, amended. While a run waits for the capture call the reset button is not offered, in
  every world the page reaches, so no capture response arrives after a reset of its run.
  A reset while a run waits for the reconstruct call leaves the run suspended, and the
  reconstruct response that arrives afterwards is applied to the cleared session as it
  would be otherwise: an ok response stores the clone result and, for non-empty markup, a
  new preview URL, while the captured data stays absent; a transport failure stores its
  error text.
\<close>

theorem C2_late_response_applied:
  "(pending (run parse initial es) = Some AwaitScrape \<longrightarrow>
      \<not> enabled (run parse initial es) ClickReset)
   \<and> (pending w = Some AwaitClone \<longrightarrow>
        pending (resetForm w) = Some AwaitClone
        \<and> enabled (resetForm w) (CloneSettled (RespOk (Json c)))
        \<and> scrapedData (step parse (resetForm w) (CloneSettled (RespOk (Json c)))) = None
        \<and> cloneResult (step parse (resetForm w) (CloneSettled (RespOk (Json c)))) = Some c
        \<and> previewUrl (step parse (resetForm w) (CloneSettled (RespOk (Json c)))) =
            (if html_content c = [] then [] else blobUrl (blobCounter w))
        \<and> error (step parse (resetForm w) (CloneSettled (Rejected msg))) =
            ''Failed to clone website: '' @ msg)"
proof -
  have "pending (run parse initial es) = Some AwaitScrape \<longrightarrow>
      \<not> enabled (run parse initial es) ClickReset"
    using reachable_inv [of parse es] by (simp add: session_inv_def)
  moreover have "pending w = Some AwaitClone \<longrightarrow>
        pending (resetForm w) = Some AwaitClone
        \<and> enabled (resetForm w) (CloneSettled (RespOk (Json c)))
        \<and> scrapedData (step parse (resetForm w) (CloneSettled (RespOk (Json c)))) = None
        \<and> cloneResult (step parse (resetForm w) (CloneSettled (RespOk (Json c)))) = Some c
        \<and> previewUrl (step parse (resetForm w) (CloneSettled (RespOk (Json c)))) =
            (if html_content c = [] then [] else blobUrl (blobCounter w))
        \<and> error (step parse (resetForm w) (CloneSettled (Rejected msg))) =
            ''Failed to clone website: '' @ msg"
    by (simp add: handler_defs)
  ultimately show ?thesis by blast
qed

theorem C2_late_response_applied_witness:
  "pending (run exampleParse initial captureInFlight) = Some AwaitScrape
   \<and> \<not> enabled (run exampleParse initial captureInFlight) ClickReset
   \<and> pending (run exampleParse initial cloneInFlight) = Some AwaitClone
   \<and> enabled (run exampleParse initial cloneInFlight) ClickReset
   \<and> cloneResult (step exampleParse (resetForm (run exampleParse initial cloneInFlight))
        (CloneSettled (RespOk (Json (exampleClone ''<p>hi</p>'')))))
       = Some (exampleClone ''<p>hi</p>'')
   \<and> previewUrl (step exampleParse (resetForm (run exampleParse initial cloneInFlight))
        (CloneSettled (RespOk (Json (exampleClone ''<p>hi</p>''))))) = ''blob:''"
  using C2_late_response_applied
          [of exampleParse captureInFlight "run exampleParse initial cloneInFlight"
              "exampleClone ''<p>hi</p>''" "''Failed to fetch''"]
  by (simp add: handler_defs fixture_defs)

section \<open>The preview URL of an earlier run\<close>

text \<open>
  C1, at the input where the code departs from it. After a completed run the preview URL
  is a live object URL. Starting a new run on the same address clears the preview URL but
  calls \<open>URL.revokeObjectURL\<close> on nothing: the object URL of the earlier run stays alive
  and no field refers to it any more.
\<close>

theorem C1_handle_leaked_by_new_run:
  "previewUrl (run exampleParse initial completedRun) = ''blob:''
   \<and> liveBlobs (run exampleParse initial completedRun) = [(''blob:'', ''<p>hi</p>'')]
   \<and> enabled (run exampleParse initial completedRun) ClickClone
   \<and> pending (run exampleParse initial (completedRun @ [ClickClone])) = Some AwaitScrape
   \<and> previewUrl (run exampleParse initial (completedRun @ [ClickClone])) = []
   \<and> liveBlobs (run exampleParse initial (completedRun @ [ClickClone])) =
        [(''blob:'', ''<p>hi</p>'')]
   \<and> revoked (run exampleParse initial (completedRun @ [ClickClone])) = []
   \<and> revoked (run exampleParse initial (completedRun @ [ClickReset])) = [''blob:'']
   \<and> liveBlobs (run exampleParse initial (completedRun @ [ClickReset])) = []"
  by (simp add: handler_defs fixture_defs)

section \<open>The number inputs\<close>

text \<open>
  C7, at the input where the code departs from it. The three settings start at 1280, 720
  and 8000. The change handlers of the number inputs store the number entered as it is,
  and the capture call carries what is stored: a width of 5000, a height of 1 and a wait
  time of 0 reach the request.
\<close>

theorem C7_out_of_range_edit_reaches_capture:
  "viewportWidth initial = 1280 \<and> viewportHeight initial = 720 \<and> waitTime initial = 8000
   \<and> requests (run exampleParse initial
        [ToggleAdvanced, EditViewportWidth 5000, EditViewportHeight 1, EditWaitTime 0,
         TypeUrl ''example.com'', ClickClone])
      = [ScrapeRequest ''https://example.com'' True 5000 1 0]"
  by (simp add: handler_defs fixture_defs)

end
